theory Spec2Isabelle
  imports Main "HOL-Library.AList"
begin

section \<open>Python string primitives used by the routers\<close>

text \<open>
  Python \<open>str\<close> values are modelled as \<open>string\<close>.  The path code of
  \<open>bookserver/routers/books.py\<close> only inspects ASCII separators and dots, so the
  byte/code-point distinction plays no role.
\<close>

definition startswith :: "string \<Rightarrow> string \<Rightarrow> bool" where
  "startswith s p = (take (length p) s = p)"

definition endswith :: "string \<Rightarrow> string \<Rightarrow> bool" where
  "endswith s p = (drop (length s - length p) s = p \<and> length p \<le> length s)"

text \<open>\<open>sub in s\<close> on strings: \<open>sub\<close> occurs as a contiguous substring of \<open>s\<close>.\<close>

fun str_contains :: "string \<Rightarrow> string \<Rightarrow> bool" where
  "str_contains sub [] = (sub = [])"
| "str_contains sub (x # xs) = (startswith (x # xs) sub \<or> str_contains sub xs)"

text \<open>\<open>s.split(c)\<close> for a one-character separator: never the empty list.\<close>

fun str_split :: "char \<Rightarrow> string \<Rightarrow> string list" where
  "str_split c [] = [[]]"
| "str_split c (x # xs) =
     (if x = c then [] # str_split c xs
      else (case str_split c xs of
              w # ws \<Rightarrow> (x # w) # ws
            | [] \<Rightarrow> [[x]]))"

text \<open>\<open>sep.join(xs)\<close>.\<close>

fun str_join :: "string \<Rightarrow> string list \<Rightarrow> string" where
  "str_join s [] = []"
| "str_join s [x] = x"
| "str_join s (x # y # ys) = x @ s @ str_join s (y # ys)"

section \<open>The \<open>posixpath\<close> functions called by \<open>safe_join\<close>\<close>

text \<open>
  \<open>posixpath.normpath\<close>: the loop over the components keeps \<open>new_comps\<close>;
  \<open>initial_slashes\<close> is 0, 1 or 2 (Python's \<open>False\<close>, \<open>True\<close>, \<open>2\<close>);
  the loop variable \<open>comp\<close> is written \<open>cmp\<close>.
\<close>

fun normpath_loop :: "nat \<Rightarrow> string list \<Rightarrow> string list \<Rightarrow> string list" where
  "normpath_loop initial_slashes [] new_comps = new_comps"
| "normpath_loop initial_slashes (cmp # comps) new_comps =
     (if cmp = [] \<or> cmp = ''.'' then normpath_loop initial_slashes comps new_comps
      else if cmp \<noteq> ''..'' \<or> (initial_slashes = 0 \<and> new_comps = [])
                \<or> (new_comps \<noteq> [] \<and> last new_comps = ''..'')
      then normpath_loop initial_slashes comps (new_comps @ [cmp])
      else if new_comps \<noteq> [] then normpath_loop initial_slashes comps (butlast new_comps)
      else normpath_loop initial_slashes comps new_comps)"

definition posixpath_normpath :: "string \<Rightarrow> string" where
  "posixpath_normpath path =
     (if path = [] then ''.''
      else
        let initial_slashes =
              (if startswith path ''/''
               then (if startswith path ''//'' \<and> \<not> startswith path ''///'' then 2 else 1)
               else (0::nat));
            comps = str_split CHR ''/'' path;
            new_comps = normpath_loop initial_slashes comps [];
            joined = str_join ''/'' new_comps;
            path' = (if initial_slashes \<noteq> 0
                     then replicate initial_slashes CHR ''/'' @ joined else joined)
        in if path' = [] then ''.'' else path')"

text \<open>\<open>posixpath.join(a, *p)\<close>: a component starting with \<open>/\<close> restarts the path.\<close>

fun posixpath_join :: "string \<Rightarrow> string list \<Rightarrow> string" where
  "posixpath_join path [] = path"
| "posixpath_join path (b # p) =
     posixpath_join
       (if startswith b ''/'' then b
        else if path = [] \<or> endswith path ''/'' then path @ b
        else path @ ''/'' @ b) p"

definition posixpath_isabs :: "string \<Rightarrow> bool" where
  "posixpath_isabs s = startswith s ''/''"

text \<open>
  \<open>posixpath.split\<close>, \<open>posixpath.basename\<close> and \<open>posixpath.splitext\<close>.  The
  indices \<open>i\<close>, \<open>sepIndex1\<close> and \<open>dotIndex1\<close> are Python's \<open>rfind\<close> results plus
  one.  In \<open>splitext\<close> the loop that skips leading dots is the test that some character
  between the last separator and the last dot is not a dot.
\<close>

definition rfind_sep :: "char \<Rightarrow> string \<Rightarrow> nat" where
  \<comment> \<open>\<open>p.rfind(c) + 1\<close>: the length of the longest prefix that ends with \<open>c\<close>, 0 if none.\<close>
  "rfind_sep c p = length p - length (takeWhile (\<lambda>x. x \<noteq> c) (rev p))"

definition str_rstrip :: "char \<Rightarrow> string \<Rightarrow> string" where
  "str_rstrip c s = rev (dropWhile (\<lambda>x. x = c) (rev s))"

definition posixpath_split :: "string \<Rightarrow> string \<times> string" where
  "posixpath_split p =
     (let i = rfind_sep CHR ''/'' p;
          head = take i p;
          tail = drop i p;
          head' = (if head \<noteq> [] \<and> head \<noteq> replicate (length head) CHR ''/''
                   then str_rstrip CHR ''/'' head else head)
      in (head', tail))"

definition posixpath_basename :: "string \<Rightarrow> string" where
  "posixpath_basename p = drop (rfind_sep CHR ''/'' p) p"

definition posixpath_splitext :: "string \<Rightarrow> string \<times> string" where
  "posixpath_splitext p =
     (let sepIndex1 = rfind_sep CHR ''/'' p;
          dotIndex1 = rfind_sep CHR ''.'' p
      in if dotIndex1 > sepIndex1
            \<and> (\<exists>c \<in> set (take (dotIndex1 - 1 - sepIndex1) (drop sepIndex1 p)). c \<noteq> CHR ''.'')
         then (take (dotIndex1 - 1) p, drop (dotIndex1 - 1) p)
         else (p, []))"

section \<open>The host platform: what \<open>os.path\<close> stands for\<close>

text \<open>
  \<open>books.py\<close> reads \<open>os.path.sep\<close>, \<open>os.path.altsep\<close>, \<open>os.path.isabs\<close>,
  \<open>os.path.split\<close>, \<open>os.path.splitext\<close> and \<open>os.path.basename\<close>; which module
  \<open>os.path\<close> is depends on the host.  The platform is a parameter of the model, and
  \<open>posix\<close> is the instance for a POSIX host, where \<open>os.path\<close> is \<open>posixpath\<close>.
\<close>

record os_path =
  os_path_sep :: string
  os_path_altsep :: "string option"
  os_path_isabs :: "string \<Rightarrow> bool"
  os_path_split :: "string \<Rightarrow> string \<times> string"
  os_path_splitext :: "string \<Rightarrow> string \<times> string"
  os_path_basename :: "string \<Rightarrow> string"

definition posix :: os_path where
  "posix = \<lparr> os_path_sep = ''/'', os_path_altsep = None,
             os_path_isabs = posixpath_isabs,
             os_path_split = posixpath_split,
             os_path_splitext = posixpath_splitext,
             os_path_basename = posixpath_basename \<rparr>"

text \<open>
  \<open>_os_alt_seps = list(sep for sep in [os.path.sep, os.path.altsep]
     if sep not in (None, "/"))\<close>
\<close>

definition os_alt_seps :: "os_path \<Rightarrow> string list" where
  "os_alt_seps pf =
     concat (map (\<lambda>sep. case sep of
                             None \<Rightarrow> []
                           | Some s \<Rightarrow> if s = ''/'' then [] else [s])
                 [Some (os_path_sep pf), os_path_altsep pf])"

section \<open>\<open>safe_join\<close>\<close>

text \<open>
  The loop of \<open>safe_join\<close> over \<open>pathnames\<close>, with \<open>parts\<close> as its accumulator;
  \<open>None\<close> is the early \<open>return None\<close>.
\<close>

definition normalize_filename :: "string \<Rightarrow> string" where
  \<comment> \<open>\<open>if filename != "": filename = posixpath.normpath(filename)\<close>\<close>
  "normalize_filename filename =
     (if filename \<noteq> [] then posixpath_normpath filename else filename)"

definition rejected :: "os_path \<Rightarrow> string \<Rightarrow> bool" where
  \<comment> \<open>the two tests of the loop body, on the normalized filename\<close>
  "rejected pf filename =
     ((\<exists>sep \<in> set (os_alt_seps pf). str_contains sep filename)
      \<or> os_path_isabs pf filename \<or> filename = ''..'' \<or> startswith filename ''../'')"

fun safe_join_loop :: "os_path \<Rightarrow> string list \<Rightarrow> string list \<Rightarrow> string list option" where
  "safe_join_loop pf parts [] = Some parts"
| "safe_join_loop pf parts (filename # pathnames) =
     (let filename = normalize_filename filename
      in if rejected pf filename then None
         else safe_join_loop pf (parts @ [filename]) pathnames)"

definition safe_join :: "os_path \<Rightarrow> string \<Rightarrow> string list \<Rightarrow> string option" where
  "safe_join pf directory pathnames =
     (case safe_join_loop pf [directory] pathnames of
        None \<Rightarrow> None
      | Some [] \<Rightarrow> None \<comment> \<open>unreachable: \<open>parts\<close> starts as \<open>[directory]\<close> and only grows\<close>
      | Some (a # p) \<Rightarrow> Some (posixpath_join a p))"

section \<open>Data model of the routers\<close>

text \<open>
  Exceptions are values.  \<open>HTTPException\<close> carries the status code and the optional
  detail; the other constructors are the Python exceptions that the handlers can let
  escape (the framework answers those with status 500).
\<close>

datatype error =
    HTTPException nat "string option"
  | TypeError
  | AttributeError
  | KeyError
  | ValidationError
  | JSONDecodeError

text \<open>
  Python values that \<open>json.loads\<close> can return and \<open>json.dumps\<close> can take.  A dict is
  an association list in insertion order.  Floats are opaque: no handler computes with
  them.
\<close>

typedecl pyfloat

datatype json =
    JNull
  | JBool bool
  | JInt int
  | JFloat pyfloat
  | JStr string
  | JList "json list"
  | JDict "(string \<times> json) list"

text \<open>A \<open>datetime\<close> is a point on the server's clock.\<close>

type_synonym datetime = nat

text \<open>
  \<open>request.state.user\<close> is \<open>None\<close> for an anonymous request and else carries
  \<open>username\<close>, \<open>email\<close> and \<open>course_name\<close> (written \<open>user_course_name\<close>);
  \<open>scope_root_path\<close> is \<open>request.scope.get("root_path")\<close>.  A course row has the
  fields that the routers read; \<open>row_id\<close> is its \<open>id\<close>.
\<close>

record request_user =
  username :: string
  email :: string
  user_course_name :: string

record request =
  state_user :: "request_user option"
  scope_root_path :: "string option"

record course_row =
  row_id :: nat
  base_course :: string
  login_required :: bool
  downloads_enabled :: bool
  allow_pairs :: bool

record settings =
  book_path :: string
  login_url :: string

text \<open>
  \<open>LogItemIncoming\<close>: the JSON payload of \<open>/logger/bookevent\<close>.  Its field
  \<open>course_name\<close> is written \<open>payload_course_name\<close>.
\<close>

record log_item_incoming =
  event :: string
  act :: string
  div_id :: string
  payload_course_name :: string
  sid :: "string option"
  timestamp :: "datetime option"
  kind_fields :: "(string \<times> json) list"

text \<open>\<open>UseinfoValidation\<close>: one row of the \<open>useinfo\<close> table.\<close>

record useinfo =
  useinfo_event :: string
  useinfo_act :: string
  useinfo_div_id :: string
  useinfo_course_id :: string
  useinfo_sid :: "string option"
  useinfo_timestamp :: "datetime option"

type_synonym answer_row = "(string \<times> json) list"

text \<open>The event store: the \<open>useinfo\<close> table and the kind-specific answer tables.\<close>

record db =
  useinfo_table :: "useinfo list"
  answer_tables :: "(string \<times> answer_row) list"

text \<open>The template environment that \<open>Jinja2Templates(directory=...)\<close> builds.\<close>

record jinja2_templates =
  loader_directory :: string
  variable_start_string :: string
  variable_end_string :: string
  comment_start_string :: string
  comment_end_string :: string
  globals_URL :: bool

datatype ctx_value =
    CStr string
  | CBool bool
  | CNone
  | CList "ctx_value list"
  | CRequest request
  | CSettings settings

text \<open>
  \<open>TemplateResponse templates name context\<close> is the page that the renderer makes of
  the template \<open>name\<close> and the context; what rendering does with them is up to Jinja.
\<close>

datatype response =
    FileResponse string
  | RedirectResponse string
  | TemplateResponse jinja2_templates string "string \<rightharpoonup> ctx_value"

text \<open>
  What the routers import and call but do not define: the platform, the settings, the
  collaborators of \<open>bookserver/crud.py\<close>, \<open>session.py\<close> and \<open>models.py\<close> that only
  read (the course store, the activity counts, the validators), the template loader, the
  file system, the server clock and the \<open>json\<close> module.  They are parameters.
\<close>

record env =
  os_path :: os_path
  settings :: settings
  fetch_course :: "string \<Rightarrow> course_row option"
  fetch_all_course_attributes :: "nat \<Rightarrow> (string \<rightharpoonup> string)"
  fetch_page_activity_counts :: "string \<Rightarrow> string \<Rightarrow> string \<Rightarrow> string \<Rightarrow> string \<Rightarrow> json"
  is_instructor :: "request \<Rightarrow> bool"
  useinfo_validates :: "useinfo \<Rightarrow> bool"
  EVENT2TABLE :: "string \<rightharpoonup> string"
  validation_tables :: "string \<rightharpoonup> (log_item_incoming \<Rightarrow> answer_row option)"
  template_found :: "string \<Rightarrow> string \<Rightarrow> bool"
  path_exists :: "string \<Rightarrow> bool"
  utcnow :: datetime
  json_dumps :: "json \<Rightarrow> string"
  json_loads :: "string \<Rightarrow> error + json"

section \<open>Collaborators that write\<close>

text \<open>
  Modelled from the spec: \<open>create_useinfo_entry\<close> of \<open>bookserver/crud.py\<close>, which is
  not among the sources.  The spec: ``Persist the event; capture its generated
  identifier''; an InteractionEvent is ``append-only; never mutated after creation''.
  The identifier is the number of the new row.
\<close>

definition create_useinfo_entry :: "useinfo \<Rightarrow> db \<Rightarrow> nat \<times> db" where
  "create_useinfo_entry log_entry s =
     (Suc (length (useinfo_table s)),
      s\<lparr>useinfo_table := useinfo_table s @ [log_entry]\<rparr>)"

text \<open>
  Modelled from the spec: \<open>create_answer_table_entry\<close> of \<open>bookserver/crud.py\<close>, which
  is not among the sources.  The spec: ``additionally construct and persist a
  kind-specific answer record from the same payload''.  The record is stored under its
  event kind.
\<close>

definition create_answer_table_entry :: "answer_row \<Rightarrow> string \<Rightarrow> db \<Rightarrow> nat \<times> db" where
  "create_answer_table_entry log_entry event_type s =
     (Suc (length (answer_tables s)),
      s\<lparr>answer_tables := answer_tables s @ [(event_type, log_entry)]\<rparr>)"

text \<open>
  \<open>UseinfoValidation(**fields)\<close> validates the fields and raises when one does not
  validate; a valid row is kept as given.
\<close>

definition UseinfoValidation :: "env \<Rightarrow> useinfo \<Rightarrow> error + useinfo" where
  "UseinfoValidation E row =
     (if useinfo_validates E row then Inr row else Inl ValidationError)"

section \<open>Static assets: \<open>return_static_asset\<close>, \<open>get_image\<close>, \<open>get_static\<close>\<close>

text \<open>
  \<open>os.path.exists(path)\<close> calls \<open>os.stat(path)\<close> and catches \<open>OSError\<close> and
  \<open>ValueError\<close> only; \<open>os.stat(None)\<close> raises \<open>TypeError\<close>, which escapes.
\<close>

definition os_path_exists :: "env \<Rightarrow> string option \<Rightarrow> error + bool" where
  "os_path_exists E path =
     (case path of None \<Rightarrow> Inl TypeError | Some p \<Rightarrow> Inr (path_exists E p))"

text \<open>
  \<open>course_row.base_course\<close> is read without a test of \<open>course_row\<close>: on \<open>None\<close>
  the attribute access raises \<open>AttributeError\<close>.
\<close>

definition return_static_asset :: "env \<Rightarrow> string \<Rightarrow> string \<Rightarrow> string \<Rightarrow> error + response" where
  "return_static_asset E course kind filepath =
     (case fetch_course E course of
        None \<Rightarrow> Inl AttributeError
      | Some course_row \<Rightarrow>
          (let filepath = safe_join (os_path E) (book_path (settings E))
                            [base_course course_row, ''build'', base_course course_row,
                             kind, filepath]
           in case os_path_exists E filepath of
                Inl e \<Rightarrow> Inl e
              | Inr True \<Rightarrow>
                  (case filepath of
                     Some p \<Rightarrow> Inr (FileResponse p)
                   | None \<Rightarrow> Inl TypeError \<comment> \<open>unreachable: \<open>os.path.exists\<close> has raised\<close>)
              | Inr False \<Rightarrow> Inl (HTTPException 404 None)))"

definition get_image :: "env \<Rightarrow> string \<Rightarrow> string \<Rightarrow> error + response" where
  "get_image E course filepath = return_static_asset E course ''_images'' filepath"

definition get_static :: "env \<Rightarrow> string \<Rightarrow> string \<Rightarrow> error + response" where
  "get_static E course filepath = return_static_asset E course ''_static'' filepath"

section \<open>The page renderer: \<open>serve_page\<close>\<close>

text \<open>
  \<open>Jinja2Templates(directory=d)\<close> hands \<open>d\<close> to the file-system loader, which
  converts it with \<open>os.fspath\<close>: \<open>None\<close> raises \<open>TypeError\<close>.  The environment
  starts with Jinja's default delimiters.
\<close>

definition Jinja2Templates :: "string option \<Rightarrow> error + jinja2_templates" where
  "Jinja2Templates d =
     (case d of
        None \<Rightarrow> Inl TypeError
      | Some p \<Rightarrow>
          Inr \<lparr> loader_directory = p,
                variable_start_string = ''{{'', variable_end_string = ''}}'',
                comment_start_string = ''{#'', comment_end_string = ''#}'',
                globals_URL = False \<rparr>)"

text \<open>The \<open>PreTeXt\<close> branch: the delimiters are replaced and \<open>URL\<close> becomes a global.\<close>

definition pretext_delimiters :: "jinja2_templates \<Rightarrow> jinja2_templates" where
  "pretext_delimiters templates =
     templates\<lparr> variable_start_string := ''~._'', variable_end_string := ''_.~'',
                comment_start_string := ''@@#'', comment_end_string := ''#@@'',
                globals_URL := True \<rparr>"

text \<open>
  A call \<open>dict(k1=v1, ..., **extra)\<close>: Python raises \<open>TypeError\<close> (``got multiple
  values for keyword argument'') when a key of \<open>extra\<close> repeats one of the explicit
  keywords; otherwise the result holds both.
\<close>

definition dict_kwargs :: "(string \<times> 'v) list \<Rightarrow> (string \<rightharpoonup> 'v) \<Rightarrow> error + (string \<rightharpoonup> 'v)" where
  "dict_kwargs keywords extra =
     (if \<exists>k \<in> set (map fst keywords). extra k \<noteq> None then Inl TypeError
      else Inr (map_of keywords ++ extra))"

definition js_bool :: "bool \<Rightarrow> string" where
  "js_bool b = (if b then ''true'' else ''false'')"

text \<open>The explicit keywords of the \<open>dict(...)\<close> call, in the order of the source.\<close>

definition fixed_context :: "env \<Rightarrow> request \<Rightarrow> string \<Rightarrow> course_row \<Rightarrow> json \<Rightarrow> bool
    \<Rightarrow> (string \<times> ctx_value) list" where
  "fixed_context E request course_name course_row activity_info user_is_instructor =
     (let user = state_user request in
      [(''request'', CRequest request),
       (''course_name'', CStr course_name),
       (''base_course'', CStr (base_course course_row)),
       (''user_id'', CStr (case user of Some u \<Rightarrow> username u | None \<Rightarrow> [])),
       (''new_server_prefix'',
          (case scope_root_path request of Some p \<Rightarrow> CStr p | None \<Rightarrow> CNone)),
       (''user_email'', CStr (case user of Some u \<Rightarrow> email u | None \<Rightarrow> [])),
       (''downloads_enabled'', CStr (js_bool (downloads_enabled course_row))),
       (''allow_pairs'', CStr (js_bool (allow_pairs course_row))),
       (''activity_info'', CStr (json_dumps E activity_info)),
       (''settings'', CSettings (settings E)),
       (''is_logged_in'', CStr (js_bool (user \<noteq> None))),
       (''serve_ad'', CBool (user = None)),
       (''is_instructor'', CStr (js_bool user_is_instructor)),
       (''readings'', CList [])])"

text \<open>
  \<open>if "enable_compare_me" not in course_attrs: course_attrs["enable_compare_me"] = "true"\<close>
\<close>

definition default_compare_me :: "(string \<rightharpoonup> string) \<Rightarrow> (string \<rightharpoonup> string)" where
  "default_compare_me course_attrs =
     (if course_attrs ''enable_compare_me'' = None
      then course_attrs(''enable_compare_me'' \<mapsto> ''true'')
      else course_attrs)"

text \<open>The page-view event that \<open>serve_page\<close> records.\<close>

definition page_view_event :: "env \<Rightarrow> request \<Rightarrow> string \<Rightarrow> string \<Rightarrow> useinfo" where
  "page_view_event E request course_name pagepath =
     \<lparr> useinfo_event = ''page'', useinfo_act = ''view'',
       useinfo_div_id = pagepath, useinfo_course_id = course_name,
       useinfo_sid = Some (case state_user request of
                             Some u \<Rightarrow> username u | None \<Rightarrow> ''Anonymous''),
       useinfo_timestamp = Some (utcnow E) \<rparr>"

text \<open>
  The body of \<open>serve_page\<close> from the template directory on, once the course row is known
  and neither redirect applies.
\<close>

definition render_page :: "env \<Rightarrow> request \<Rightarrow> string \<Rightarrow> string \<Rightarrow> course_row \<Rightarrow> db
    \<Rightarrow> (error + response) \<times> db" where
  "render_page E request course_name pagepath course_row s =
     (let user = state_user request;
          user_is_instructor = (if user \<noteq> None then is_instructor E request else False);
          chapter = snd (os_path_split (os_path E) (fst (os_path_split (os_path E) pagepath)));
          subchapter = os_path_basename (os_path E) (fst (os_path_splitext (os_path E) pagepath));
          activity_info =
            (case user of
               Some u \<Rightarrow> fetch_page_activity_counts E chapter subchapter
                           (base_course course_row) (username u) course_name
             | None \<Rightarrow> JDict [])
      in case Jinja2Templates
                (safe_join (os_path E) (book_path (settings E))
                   [base_course course_row, ''published'', base_course course_row]) of
           Inl e \<Rightarrow> (Inl e, s)
         | Inr templates0 \<Rightarrow>
             (let course_attrs0 = fetch_all_course_attributes E (row_id course_row);
                  templates =
                    (if (case course_attrs0 ''markup_system'' of
                           Some v \<Rightarrow> v | None \<Rightarrow> ''RST'') = ''PreTeXt''
                     then pretext_delimiters templates0 else templates0);
                  course_attrs = default_compare_me course_attrs0
              in case UseinfoValidation E (page_view_event E request course_name pagepath) of
                   Inl e \<Rightarrow> (Inl e, s)
                 | Inr entry \<Rightarrow>
                     (let (idx, s') = create_useinfo_entry entry s
                      in case dict_kwargs
                                (fixed_context E request course_name course_row
                                   activity_info user_is_instructor)
                                (map_option CStr \<circ> course_attrs) of
                           Inl e \<Rightarrow> (Inl e, s')
                         | Inr context \<Rightarrow>
                             if template_found E (loader_directory templates) pagepath
                             then (Inr (TemplateResponse templates pagepath context), s')
                             else (Inl (HTTPException 404
                                     (Some (''Page '' @ pagepath
                                            @ '' not found in base course ''
                                            @ base_course course_row @ ''.''))), s'))))"

text \<open>
  \<open>serve_page\<close>.  The \<open>constr(max_length=512)\<close> annotations of \<open>course_name\<close> and
  \<open>pagepath\<close> are checked by the framework before the body runs; the body itself, which
  is what is modelled, does not look at the lengths.
\<close>

definition serve_page :: "env \<Rightarrow> request \<Rightarrow> string \<Rightarrow> string \<Rightarrow> db \<Rightarrow> (error + response) \<times> db" where
  "serve_page E request course_name pagepath s =
     (let user = state_user request
      in case fetch_course E course_name of
           None \<Rightarrow>
             (Inl (HTTPException 404 (Some (''Course '' @ course_name @ '' not found''))), s)
         | Some course_row \<Rightarrow>
             if login_required course_row \<and> user = None
             then (Inr (RedirectResponse (login_url (settings E))), s)
             else if (case user of
                        Some u \<Rightarrow> user_course_name u \<noteq> course_name | None \<Rightarrow> False)
             then (Inr (RedirectResponse ''/runestone/default/courses''), s)
             else render_page E request course_name pagepath course_row s)"

section \<open>The event logger: \<open>log_book_event\<close>\<close>

text \<open>
  \<open>entry.dict()\<close> with \<open>course_name\<close> renamed to \<open>course_id\<close>, restricted to the
  fields of the \<open>useinfo\<close> table (the validator ignores the others).
\<close>

definition useinfo_dict :: "log_item_incoming \<Rightarrow> useinfo" where
  "useinfo_dict entry =
     \<lparr> useinfo_event = event entry, useinfo_act = act entry,
       useinfo_div_id = div_id entry, useinfo_course_id = payload_course_name entry,
       useinfo_sid = sid entry, useinfo_timestamp = timestamp entry \<rparr>"

text \<open>
  The two assignments at the top of \<open>log_book_event\<close>: \<open>entry.sid\<close> and
  \<open>entry.timestamp\<close> are overwritten in place, so every later use of \<open>entry\<close> sees
  the new values.
\<close>

definition stamp_entry :: "env \<Rightarrow> request \<Rightarrow> log_item_incoming \<Rightarrow> log_item_incoming" where
  "stamp_entry E request entry =
     entry\<lparr> sid := Some (case state_user request of
                           Some u \<Rightarrow> username u | None \<Rightarrow> ''Anonymous''),
            timestamp := Some (utcnow E) \<rparr>"

text \<open>
  The branch \<open>if entry.event in EVENT2TABLE\<close>: \<open>validation_tables[table_name]\<close> raises
  \<open>KeyError\<close> on a missing table, \<open>from_orm\<close> raises when the payload does not
  validate.
\<close>

definition log_answer :: "env \<Rightarrow> log_item_incoming \<Rightarrow> db \<Rightarrow> (error + unit) \<times> db" where
  "log_answer E entry s =
     (case EVENT2TABLE E (event entry) of
        None \<Rightarrow> (Inr (), s)
      | Some table_name \<Rightarrow>
          (case validation_tables E table_name of
             None \<Rightarrow> (Inl KeyError, s)
           | Some from_orm \<Rightarrow>
               (case from_orm entry of
                  None \<Rightarrow> (Inl ValidationError, s)
                | Some valid_table \<Rightarrow>
                    (let (ans_idx, s') = create_answer_table_entry valid_table (event entry) s
                     in (Inr (), s')))))"

definition log_book_event :: "env \<Rightarrow> log_item_incoming \<Rightarrow> request \<Rightarrow> db \<Rightarrow> (error + json) \<times> db" where
  "log_book_event E entry0 request s =
     (let entry = stamp_entry E request entry0
      in case UseinfoValidation E (useinfo_dict entry) of
           Inl e \<Rightarrow> (Inl e, s)
         | Inr useinfo_entry \<Rightarrow>
             (let (idx, s1) = create_useinfo_entry useinfo_entry s
              in case log_answer E entry s1 of
                   (Inl e, s2) \<Rightarrow> (Inl e, s2)
                 | (Inr _, s2) \<Rightarrow>
                     (if idx \<noteq> 0
                      then Inr (JDict [(''status'', JStr ''OK''), (''idx'', JInt (int idx))])
                      else Inr (JDict [(''status'', JStr ''FAIL'')]), s2)))"

section \<open>The time-zone cookie: \<open>set_tz_offset\<close>\<close>

record timezone_request =
  timezoneoffset :: int

text \<open>
  \<open>values[key] = v\<close> on a Python dict, kept as an association list in insertion order:
  an existing key keeps its place, a new one goes to the end.
\<close>

definition dict_setitem :: "string \<Rightarrow> json \<Rightarrow> (string \<times> json) list \<Rightarrow> (string \<times> json) list" where
  "dict_setitem k v d = AList.update k v d"

text \<open>
  The response is the list of cookies set on it.  \<open>if RS_info\<close> is false for a missing
  cookie and for the empty string.  Item assignment on a decoded value that is not a dict
  raises \<open>TypeError\<close>.
\<close>

definition set_tz_offset :: "env \<Rightarrow> (string \<times> string) list \<Rightarrow> timezone_request \<Rightarrow> string option
    \<Rightarrow> error + (string \<times> (string \<times> string) list)" where
  "set_tz_offset E response tzreq RS_info =
     (case (case RS_info of
              None \<Rightarrow> Inr (JDict [])
            | Some c \<Rightarrow> if c = [] then Inr (JDict []) else json_loads E c) of
        Inl e \<Rightarrow> Inl e
      | Inr (JDict d) \<Rightarrow>
          (let values = dict_setitem ''tz_offset'' (JInt (timezoneoffset tzreq)) d
           in Inr (''done'', response @ [(''RS_info'', json_dumps E (JDict values))]))
      | Inr _ \<Rightarrow> Inl TypeError)"

text \<open>The keywords written out in the \<open>dict(...)\<close> call of \<open>serve_page\<close>.\<close>

definition fixed_context_keys :: "string list" where
  "fixed_context_keys =
     [''request'', ''course_name'', ''base_course'', ''user_id'', ''new_server_prefix'',
      ''user_email'', ''downloads_enabled'', ''allow_pairs'', ''activity_info'', ''settings'',
      ''is_logged_in'', ''serve_ad'', ''is_instructor'', ''readings'']"

section \<open>A concrete deployment\<close>

text \<open>
  A POSIX host with three courses over one base course, used to evaluate the handlers:
  \<open>overview\<close> is open, \<open>members\<close> requires a login, and \<open>shadowed\<close> has a course
  attribute named \<open>user_id\<close>.  The \<open>json\<close> functions are tabulated on the values that
  occur.
\<close>

definition cookie_theme :: string where
  \<open>cookie_theme = ''{"theme": "dark"}''\<close>

definition cookie_theme_tz :: string where
  \<open>cookie_theme_tz = ''{"theme": "dark", "tz_offset": 5}''\<close>

definition cookie_tz :: string where
  \<open>cookie_tz = ''{"tz_offset": 5}''\<close>

definition test_courses :: "string \<rightharpoonup> course_row" where
  "test_courses =
     [''overview'' \<mapsto> \<lparr> row_id = 1, base_course = ''overview'', login_required = False,
                        downloads_enabled = True, allow_pairs = False \<rparr>,
      ''members'' \<mapsto> \<lparr> row_id = 2, base_course = ''overview'', login_required = True,
                       downloads_enabled = False, allow_pairs = False \<rparr>,
      ''shadowed'' \<mapsto> \<lparr> row_id = 3, base_course = ''overview'', login_required = False,
                        downloads_enabled = False, allow_pairs = False \<rparr>]"

definition test_env :: env where
  "test_env =
     \<lparr> os_path = posix,
       settings = \<lparr> book_path = ''/srv/books'', login_url = ''/runestone/default/user'' \<rparr>,
       fetch_course = test_courses,
       fetch_all_course_attributes =
         (\<lambda>i. if i = 1 then [''markup_system'' \<mapsto> ''PreTeXt'']
              else if i = 3 then [''user_id'' \<mapsto> ''mallory'']
              else Map.empty),
       fetch_page_activity_counts =
         (\<lambda>chapter subchapter base_course username course_name. JDict []),
       is_instructor = (\<lambda>request. False),
       useinfo_validates = (\<lambda>row. length (useinfo_div_id row) \<le> 512),
       EVENT2TABLE = [''mChoice'' \<mapsto> ''mchoice_answers''],
       validation_tables =
         [''mchoice_answers'' \<mapsto>
            (\<lambda>entry. if map_of (kind_fields entry) ''answer'' = None then None
                     else Some ((''sid'', case sid entry of Some x \<Rightarrow> JStr x | None \<Rightarrow> JNull)
                                # kind_fields entry))],
       template_found =
         (\<lambda>d name. d = ''/srv/books/overview/published/overview'' \<and> name = ''index.html''),
       path_exists = (\<lambda>p. p = ''/srv/books/overview/build/overview/_static/site.css''),
       utcnow = 1636000000,
       json_dumps =
         (\<lambda>j. if j = JDict [(''theme'', JStr ''dark''), (''tz_offset'', JInt 5)]
              then cookie_theme_tz
              else if j = JDict [(''tz_offset'', JInt 5)] then cookie_tz
              else ''{}''),
       json_loads =
         (\<lambda>c. if c = cookie_theme then Inr (JDict [(''theme'', JStr ''dark'')])
              else Inl JSONDecodeError) \<rparr>"

definition anonymous :: request where
  "anonymous = \<lparr> state_user = None, scope_root_path = Some [] \<rparr>"

definition empty_db :: db where
  "empty_db = \<lparr> useinfo_table = [], answer_tables = [] \<rparr>"

text \<open>A logged-in student of \<open>overview\<close>, and two payloads for the event logger.\<close>

definition student :: request where
  "student = \<lparr> state_user = Some \<lparr> username = ''alice'', email = ''alice@example.org'',
                                    user_course_name = ''overview'' \<rparr>,
               scope_root_path = Some [] \<rparr>"

definition click_entry :: log_item_incoming where
  "click_entry = \<lparr> event = ''page'', act = ''view'', div_id = ''index.html'',
                   payload_course_name = ''overview'', sid = Some ''mallory'',
                   timestamp = Some 7, kind_fields = [] \<rparr>"

definition mchoice_entry :: log_item_incoming where
  "mchoice_entry = \<lparr> event = ''mChoice'', act = ''answer:1:correct'', div_id = ''q1'',
                     payload_course_name = ''overview'', sid = None,
                     timestamp = None,
                     kind_fields = [(''answer'', JStr ''1''), (''correct'', JBool True)] \<rparr>"

section \<open>Properties of \<open>safe_join\<close>\<close>

lemmas path_eval = safe_join_def normalize_filename_def rejected_def posix_def os_alt_seps_def
  posixpath_isabs_def posixpath_normpath_def startswith_def endswith_def Let_def

lemma endswith_char: "endswith s [c] \<longleftrightarrow> s \<noteq> [] \<and> last s = c"
proof (cases s rule: rev_cases)
  case Nil
  then show ?thesis by (simp add: endswith_def)
next
  case (snoc ys y)
  then show ?thesis by (auto simp: endswith_def)
qed

lemma startswith_char: "startswith s [c] \<longleftrightarrow> s \<noteq> [] \<and> hd s = c"
  by (cases s) (auto simp: startswith_def)

lemma str_split_not_Nil: "str_split c s \<noteq> []"
  by (induction s) (auto split: list.splits)

lemma str_split_append_sep: "str_split c (a @ c # b) = str_split c a @ str_split c b"
proof (induction a)
  case Nil
  show ?case by simp
next
  case (Cons x a)
  obtain w ws where "str_split c a = w # ws"
    using str_split_not_Nil [of c a] by (cases "str_split c a") auto
  with Cons show ?case by simp
qed

lemma str_split_no_sep: "x \<in> set (str_split c s) \<Longrightarrow> c \<notin> set x"
proof (induction s arbitrary: x)
  case Nil
  then show ?case by simp
next
  case (Cons y s)
  show ?case
  proof (cases "y = c")
    case True
    with Cons show ?thesis by auto
  next
    case False
    obtain w ws where ws: "str_split c s = w # ws"
      using str_split_not_Nil [of c s] by (cases "str_split c s") auto
    with Cons.prems False have "x = y # w \<or> x \<in> set ws" by simp
    then show ?thesis
      using Cons.IH [of w] Cons.IH [of x] ws False by auto
  qed
qed

lemma str_split_without_sep: "c \<notin> set s \<Longrightarrow> str_split c s = [s]"
  by (induction s) auto

lemma str_split_join:
  "xs \<noteq> [] \<Longrightarrow> \<forall>x \<in> set xs. c \<notin> set x \<Longrightarrow> str_split c (str_join [c] xs) = xs"
proof (induction "[c]" xs rule: str_join.induct)
  case 1
  then show ?case by simp
next
  case (2 x)
  then show ?case by (simp add: str_split_without_sep)
next
  case (3 x y ys)
  then have "str_split c (str_join [c] (y # ys)) = y # ys" by simp
  moreover have "str_split c x = [x]"
    using 3 by (simp add: str_split_without_sep)
  ultimately show ?case
    using str_split_append_sep [of c x "str_join [c] (y # ys)"] by simp
qed

lemma normpath_loop_subset:
  "set (normpath_loop i comps new_comps) \<subseteq> set comps \<union> set new_comps"
proof (induction comps arbitrary: new_comps)
  case Nil
  show ?case by simp
next
  case (Cons cmp comps)
  have "set (butlast new_comps) \<subseteq> set new_comps"
    by (auto dest: in_set_butlastD)
  with Cons [of new_comps] Cons [of "new_comps @ [cmp]"] Cons [of "butlast new_comps"]
  show ?case by (auto simp: Let_def)
qed

text \<open>In a relative path, \<open>..\<close> components survive only at the front.\<close>

lemma normpath_loop_dotdot:
  "(''..'' \<in> set new_comps \<longrightarrow> hd new_comps = ''..'') \<Longrightarrow>
   ''..'' \<in> set (normpath_loop 0 comps new_comps) \<Longrightarrow>
   hd (normpath_loop 0 comps new_comps) = ''..''"
proof (induction comps arbitrary: new_comps)
  case Nil
  then show ?case by simp
next
  case (Cons cmp comps)
  show ?case
  proof (cases "cmp = [] \<or> cmp = ''.''")
    case True
    with Cons show ?thesis by simp
  next
    case skip: False
    show ?thesis
    proof (cases "cmp \<noteq> ''..'' \<or> new_comps = [] \<or> last new_comps = ''..''")
      case True
      have inv: "''..'' \<in> set (new_comps @ [cmp]) \<longrightarrow> hd (new_comps @ [cmp]) = ''..''"
      proof (cases "new_comps = []")
        case True
        then show ?thesis by simp
      next
        case ne: False
        then have mem: "last new_comps \<in> set new_comps" by simp
        have "''..'' \<in> set new_comps" if "''..'' \<in> set (new_comps @ [cmp])"
        proof (cases "cmp = ''..''")
          case True
          with \<open>cmp \<noteq> ''..'' \<or> new_comps = [] \<or> last new_comps = ''..''\<close> ne mem
          show ?thesis by auto
        next
          case False
          with that show ?thesis by simp
        qed
        with Cons.prems(1) ne show ?thesis by auto
      qed
      from True skip have "normpath_loop 0 (cmp # comps) new_comps
                            = normpath_loop 0 comps (new_comps @ [cmp])"
        by auto
      with Cons.IH [OF inv] Cons.prems(2) show ?thesis by simp
    next
      case False
      then have ne: "new_comps \<noteq> []" and l: "last new_comps \<noteq> ''..''" and c: "cmp = ''..''"
        by auto
      have inv: "''..'' \<in> set (butlast new_comps) \<longrightarrow> hd (butlast new_comps) = ''..''"
      proof
        assume a: "''..'' \<in> set (butlast new_comps)"
        then have "''..'' \<in> set new_comps" by (rule in_set_butlastD)
        with Cons.prems(1) have "hd new_comps = ''..''" by simp
        moreover from a have "butlast new_comps \<noteq> []" by auto
        then have "hd (butlast new_comps) = hd new_comps"
          by (cases new_comps) (auto split: if_splits)
        ultimately show "hd (butlast new_comps) = ''..''" by simp
      qed
      from ne l c have "normpath_loop 0 (cmp # comps) new_comps
                            = normpath_loop 0 comps (butlast new_comps)"
        by simp
      with Cons.IH [OF inv] Cons.prems(2) show ?thesis by simp
    qed
  qed
qed

lemma str_join_hd_dotdot:
  "xs \<noteq> [] \<Longrightarrow> hd xs = ''..'' \<Longrightarrow>
     str_join ''/'' xs = ''..'' \<or> startswith (str_join ''/'' xs) ''../''"
proof (cases xs)
  case Nil
  assume "xs \<noteq> []"
  with Nil show ?thesis by simp
next
  case (Cons x ys)
  assume "hd xs = ''..''"
  with Cons show ?thesis
    by (cases ys) (simp_all add: startswith_def)
qed

lemma normpath_components:
  assumes rel: "\<not> startswith (posixpath_normpath path) ''/''"
    and esc: "posixpath_normpath path \<noteq> ''..''" "\<not> startswith (posixpath_normpath path) ''../''"
  shows "''..'' \<notin> set (str_split CHR ''/'' (posixpath_normpath path))"
proof (cases "path = []")
  case True
  then show ?thesis by (simp add: posixpath_normpath_def)
next
  case False
  let ?new = "normpath_loop 0 (str_split CHR ''/'' path) []"
  have i0: "\<not> startswith path ''/''"
  proof
    assume "startswith path ''/''"
    with False have "startswith (posixpath_normpath path) ''/''"
      by (auto simp: posixpath_normpath_def Let_def startswith_def)
    with rel show False by simp
  qed
  then have np: "posixpath_normpath path
                   = (if str_join ''/'' ?new = [] then ''.'' else str_join ''/'' ?new)"
    using False by (simp add: posixpath_normpath_def Let_def)
  show ?thesis
  proof (cases "str_join ''/'' ?new = []")
    case True
    with np show ?thesis by simp
  next
    case nonempty: False
    then have ne: "?new \<noteq> []" by auto
    have "\<forall>x \<in> set ?new. CHR ''/'' \<notin> set x"
      using normpath_loop_subset [of 0 "str_split CHR ''/'' path" "[]"]
      by (auto dest: str_split_no_sep)
    with ne have sp: "str_split CHR ''/'' (str_join ''/'' ?new) = ?new"
      by (simp add: str_split_join)
    have "''..'' \<notin> set ?new"
    proof
      assume "''..'' \<in> set ?new"
      then have "hd ?new = ''..''"
        using normpath_loop_dotdot [of "[]" "str_split CHR ''/'' path"] by simp
      from str_join_hd_dotdot [OF ne this] esc np nonempty show False by simp
    qed
    with np nonempty sp show ?thesis by simp
  qed
qed

lemma normalize_filename_components:
  assumes "\<not> startswith (normalize_filename f) ''/''"
    and "normalize_filename f \<noteq> ''..''" "\<not> startswith (normalize_filename f) ''../''"
  shows "''..'' \<notin> set (str_split CHR ''/'' (normalize_filename f))"
proof (cases "f = []")
  case True
  then show ?thesis by (simp add: normalize_filename_def)
next
  case False
  with assms normpath_components [of f] show ?thesis
    by (simp add: normalize_filename_def)
qed

text \<open>The loop appends the normalized filenames, each of which passed both tests.\<close>

lemma safe_join_loop_parts:
  "safe_join_loop pf parts pathnames = Some parts' \<Longrightarrow>
     parts' = parts @ map normalize_filename pathnames
     \<and> (\<forall>f \<in> set pathnames. \<not> rejected pf (normalize_filename f))"
proof (induction pathnames arbitrary: parts)
  case Nil
  then show ?case by simp
next
  case (Cons filename pathnames)
  let ?f = "normalize_filename filename"
  from Cons.prems have nr: "\<not> rejected pf ?f"
    and loop: "safe_join_loop pf (parts @ [?f]) pathnames = Some parts'"
    by (simp_all add: Let_def split: if_splits)
  from Cons.IH [OF loop] nr show ?case by simp
qed

lemma safe_join_Some:
  assumes "safe_join pf directory pathnames = Some result"
  shows "result = posixpath_join directory (map normalize_filename pathnames)
         \<and> (\<forall>f \<in> set pathnames. \<not> rejected pf (normalize_filename f))"
proof -
  from assms obtain parts where loop: "safe_join_loop pf [directory] pathnames = Some parts"
    by (auto simp: safe_join_def split: option.splits)
  from safe_join_loop_parts [OF loop] assms loop show ?thesis
    by (auto simp: safe_join_def)
qed

text \<open>
  What \<open>posixpath.join\<close> appends to the base: components without \<open>..\<close>, set off from
  the base by a slash.
\<close>

lemma posixpath_join_inside:
  assumes "\<forall>b \<in> set p. \<not> startswith b ''/'' \<and> ''..'' \<notin> set (str_split CHR ''/'' b)"
    and "''..'' \<notin> set (str_split CHR ''/'' rest)"
    and "directory = [] \<or> endswith directory ''/'' \<or> rest = [] \<or> startswith rest ''/''"
  shows "\<exists>rest'. posixpath_join (directory @ rest) p = directory @ rest'
           \<and> ''..'' \<notin> set (str_split CHR ''/'' rest')
           \<and> (directory = [] \<or> endswith directory ''/'' \<or> rest' = [] \<or> startswith rest' ''/'')"
  using assms
proof (induction p arbitrary: rest)
  case Nil
  then show ?case by simp
next
  case (Cons b p)
  from Cons.prems(1) have nb: "\<not> startswith b ''/''"
    and cb: "''..'' \<notin> set (str_split CHR ''/'' b)"
    and tail: "\<forall>b \<in> set p. \<not> startswith b ''/'' \<and> ''..'' \<notin> set (str_split CHR ''/'' b)"
    by simp_all
  let ?path = "directory @ rest"
  define rest' where
    "rest' = (if ?path = [] \<or> endswith ?path ''/'' then rest @ b else rest @ ''/'' @ b)"
  have step: "posixpath_join ?path (b # p) = posixpath_join (directory @ rest') p"
    using nb by (simp add: rest'_def)
  have comps: "''..'' \<notin> set (str_split CHR ''/'' rest')"
  proof (cases "?path = [] \<or> endswith ?path ''/''")
    case False
    then have "rest' = rest @ CHR ''/'' # b" by (simp add: rest'_def)
    with Cons.prems(2) cb show ?thesis
      by (simp add: str_split_append_sep)
  next
    case True
    then have r: "rest' = rest @ b" by (simp add: rest'_def)
    show ?thesis
    proof (cases "rest = []")
      case True
      with r cb show ?thesis by simp
    next
      case False
      with True have "last rest = CHR ''/''"
        by (auto simp: endswith_char)
      with False have "rest = butlast rest @ ''/''"
        by (metis append_butlast_last_id)
      then have e: "rest' = butlast rest @ CHR ''/'' # b"
        and f: "str_split CHR ''/'' rest = str_split CHR ''/'' (butlast rest) @ [[]]"
        using r str_split_append_sep [of "CHR ''/''" "butlast rest" "[]"]
        by (metis append_Cons append_Nil append_assoc, metis append_Cons append_Nil str_split.simps(1))
      from f Cons.prems(2) have "''..'' \<notin> set (str_split CHR ''/'' (butlast rest))"
        by simp
      with e cb show ?thesis
        by (simp add: str_split_append_sep)
    qed
  qed
  have sep: "directory = [] \<or> endswith directory ''/'' \<or> rest' = [] \<or> startswith rest' ''/''"
  proof (cases "directory = [] \<or> endswith directory ''/''")
    case True
    then show ?thesis by blast
  next
    case False
    show ?thesis
    proof (cases "rest = []")
      case True
      with False have "rest' = ''/'' @ b" by (simp add: rest'_def)
      then show ?thesis by (simp add: startswith_def)
    next
      case ne: False
      with False Cons.prems(3) have "startswith rest ''/''" by blast
      then have "startswith rest' ''/''"
        using ne by (auto simp: rest'_def startswith_char)
      then show ?thesis by blast
    qed
  qed
  from Cons.IH [OF tail comps sep] step show ?case by simp
qed

text \<open>
  C1.  Whenever \<open>safe_join\<close> accepts (returns a path, not \<open>None\<close>), the returned path
  starts with the base directory, whatever the untrusted segments are; what follows the
  base has no \<open>..\<close> component and is set off from the base by a slash (unless the
  base is empty or ends with one), so the path stays lexically inside the base.  The host
  enters through \<open>os.path.isabs\<close> only: it has to count a leading slash as absolute, as
  \<open>posixpath.isabs\<close> does, since that is where \<open>posixpath.join\<close> would restart.
\<close>

theorem safe_join_prefixed_by_directory:
  assumes "\<forall>f. posixpath_isabs f \<longrightarrow> os_path_isabs pf f"
    and "safe_join pf directory pathnames = Some result"
  shows "startswith result directory
         \<and> (\<exists>rest. result = directory @ rest
               \<and> ''..'' \<notin> set (str_split CHR ''/'' rest)
               \<and> (directory = [] \<or> endswith directory ''/'' \<or> rest = []
                   \<or> startswith rest ''/''))"
proof -
  let ?fs = "map normalize_filename pathnames"
  from safe_join_Some [OF assms(2)]
  have res: "result = posixpath_join directory ?fs"
    and acc: "\<forall>f \<in> set pathnames. \<not> rejected pf (normalize_filename f)"
    by simp_all
  have "\<forall>b \<in> set ?fs. \<not> startswith b ''/'' \<and> ''..'' \<notin> set (str_split CHR ''/'' b)"
  proof
    fix b assume "b \<in> set ?fs"
    then obtain f where f: "f \<in> set pathnames" "b = normalize_filename f" by auto
    with acc have nr: "\<not> rejected pf (normalize_filename f)" by simp
    with assms(1) have rel: "\<not> startswith (normalize_filename f) ''/''"
      by (auto simp: rejected_def posixpath_isabs_def)
    from nr have "normalize_filename f \<noteq> ''..''" "\<not> startswith (normalize_filename f) ''../''"
      by (simp_all add: rejected_def)
    from normalize_filename_components [OF rel this] rel f(2)
    show "\<not> startswith b ''/'' \<and> ''..'' \<notin> set (str_split CHR ''/'' b)" by simp
  qed
  from posixpath_join_inside [OF this, of "[]" directory] res
  obtain rest where rest: "result = directory @ rest"
      "''..'' \<notin> set (str_split CHR ''/'' rest)"
      "directory = [] \<or> endswith directory ''/'' \<or> rest = [] \<or> startswith rest ''/''"
    by auto
  then have "startswith result directory"
    by (simp add: startswith_def)
  with rest show ?thesis by blast
qed

theorem safe_join_prefixed_by_directory_witness:
  "os_path_isabs posix = posixpath_isabs
   \<and> safe_join posix ''/srv/books''
         [''overview'', ''build'', ''overview'', ''_static'', ''css/./site.css'']
       = Some ''/srv/books/overview/build/overview/_static/css/site.css''
   \<and> startswith ''/srv/books/overview/build/overview/_static/css/site.css'' ''/srv/books''"
proof -
  have h0: "os_path_isabs posix = posixpath_isabs"
    by (simp add: posix_def)
  have h1: "\<forall>f. posixpath_isabs f \<longrightarrow> os_path_isabs posix f"
    by (simp add: posix_def)
  have h2: "safe_join posix ''/srv/books''
              [''overview'', ''build'', ''overview'', ''_static'', ''css/./site.css'']
            = Some ''/srv/books/overview/build/overview/_static/css/site.css''"
    by (simp add: path_eval)
  from safe_join_prefixed_by_directory [OF h1 h2] h0 h2 show ?thesis by blast
qed

text \<open>A filename that fails a test anywhere in the sequence ends the loop with \<open>None\<close>.\<close>

lemma safe_join_loop_rejected:
  "f \<in> set pathnames \<Longrightarrow> rejected pf (normalize_filename f) \<Longrightarrow>
     safe_join_loop pf parts pathnames = None"
proof (induction pathnames arbitrary: parts)
  case Nil
  then show ?case by simp
next
  case (Cons filename pathnames)
  show ?case
  proof (cases "rejected pf (normalize_filename filename)")
    case True
    then show ?thesis by (simp add: Let_def)
  next
    case False
    with Cons.prems have "f \<in> set pathnames" by auto
    from Cons.IH [OF this Cons.prems(2)] False show ?thesis
      by (simp add: Let_def)
  qed
qed

text \<open>
  C2, as the code has it.  The tests are made on the normalized segment: if some segment,
  once normalized, contains a platform-alternate separator, is an absolute path, is
  exactly \<open>..\<close> or begins with \<open>../\<close>, then \<open>safe_join\<close> returns \<open>None\<close>.
\<close>

theorem safe_join_rejects_escape:
  assumes "f \<in> set pathnames"
    and "(\<exists>sep \<in> set (os_alt_seps pf). str_contains sep (normalize_filename f))
         \<or> os_path_isabs pf (normalize_filename f)
         \<or> normalize_filename f = ''..''
         \<or> startswith (normalize_filename f) ''../''"
  shows "safe_join pf directory pathnames = None"
proof -
  from assms(2) have "rejected pf (normalize_filename f)"
    by (simp add: rejected_def)
  from safe_join_loop_rejected [OF assms(1) this] show ?thesis
    by (simp add: safe_join_def)
qed

theorem safe_join_rejects_escape_witness:
  "''../../etc/passwd'' \<in> set [''_static'', ''../../etc/passwd'']
   \<and> startswith (normalize_filename ''../../etc/passwd'') ''../''
   \<and> safe_join posix ''/srv/books'' [''_static'', ''../../etc/passwd''] = None"
proof -
  have h1: "''../../etc/passwd'' \<in> set [''_static'', ''../../etc/passwd'']" by simp
  have h2: "startswith (normalize_filename ''../../etc/passwd'') ''../''"
    by (simp add: path_eval)
  from safe_join_rejects_escape [of "''../../etc/passwd''" _ posix, OF h1] h1 h2
  show ?thesis by blast
qed

text \<open>
  C2 as the spec words it fails: a segment that contains \<open>..\<close> is accepted when
  normalization removes the \<open>..\<close> without leaving the segment's own root.
\<close>

theorem safe_join_contains_dotdot_counterexample:
  "str_contains ''..'' ''a/../b''
   \<and> safe_join posix ''/srv/books'' [''a/../b''] = Some ''/srv/books/b''"
  by (simp add: path_eval)

section \<open>Properties of the static-asset handlers\<close>

lemma safe_join_traversal:
  "safe_join posix ''/srv/books''
     [''overview'', ''build'', ''overview'', ''_static'', ''../../etc/passwd''] = None"
  by (simp add: path_eval)

text \<open>
  C3.  A static-asset request whose filepath \<open>safe_join\<close> rejects does not get the 404 of
  a missing file: \<open>None\<close> reaches \<open>os.path.exists\<close>, which raises \<open>TypeError\<close>.  No
  file is served.
\<close>

theorem get_static_traversal_raises:
  "get_static test_env ''overview'' ''../../etc/passwd'' = Inl TypeError"
  by (simp add: get_static_def return_static_asset_def test_env_def test_courses_def
      os_path_exists_def safe_join_traversal)

lemma return_static_asset_rejected:
  assumes "fetch_course E course = Some course_row"
    and "safe_join (os_path E) (book_path (settings E))
           [base_course course_row, ''build'', base_course course_row, kind, filepath] = None"
  shows "return_static_asset E course kind filepath = Inl TypeError"
  using assms by (simp add: return_static_asset_def os_path_exists_def)

text \<open>
  C4.  A static-asset request for a course that is not in the course store does not get
  a 404: the attribute access on the missing row raises \<open>AttributeError\<close>.
  \<open>serve_page\<close>, which tests the row, answers 404.
\<close>

theorem get_image_unknown_course_raises:
  "get_image test_env ''nosuch'' ''logo.png'' = Inl AttributeError"
  by (simp add: get_image_def return_static_asset_def test_env_def test_courses_def)

lemma serve_page_unknown_course:
  "fetch_course E course_name = None \<Longrightarrow>
     serve_page E request course_name pagepath s
       = (Inl (HTTPException 404 (Some (''Course '' @ course_name @ '' not found''))), s)"
  by (simp add: serve_page_def)

section \<open>Properties of \<open>serve_page\<close>\<close>

text \<open>
  C7.  An anonymous request for a page of an existing course that requires a login is
  answered with a redirect to the login location; the result is the redirect, not a
  template response, and the event store is returned unchanged.
\<close>

theorem serve_page_login_redirect:
  assumes "fetch_course E course_name = Some course_row"
    and "login_required course_row"
    and "state_user request = None"
  shows "serve_page E request course_name pagepath s
           = (Inr (RedirectResponse (login_url (settings E))), s)"
  using assms by (simp add: serve_page_def)

theorem serve_page_login_redirect_witness:
  "fetch_course test_env ''members''
     = Some \<lparr> row_id = 2, base_course = ''overview'', login_required = True,
              downloads_enabled = False, allow_pairs = False \<rparr>
   \<and> login_required \<lparr> row_id = 2, base_course = ''overview'', login_required = True,
                      downloads_enabled = False, allow_pairs = False \<rparr>
   \<and> state_user anonymous = None
   \<and> serve_page test_env anonymous ''members'' ''index.html'' empty_db
       = (Inr (RedirectResponse ''/runestone/default/user''), empty_db)"
proof -
  have h1: "fetch_course test_env ''members''
              = Some \<lparr> row_id = 2, base_course = ''overview'', login_required = True,
                       downloads_enabled = False, allow_pairs = False \<rparr>"
    by (simp add: test_env_def test_courses_def)
  have h2: "login_required \<lparr> row_id = 2, base_course = ''overview'', login_required = True,
                             downloads_enabled = False, allow_pairs = False \<rparr>"
    by simp
  have h3: "state_user anonymous = None"
    by (simp add: anonymous_def)
  from serve_page_login_redirect [OF h1 h2 h3, of "''index.html''" empty_db] h1 h2 h3
  show ?thesis by (simp add: test_env_def)
qed

lemma fixed_context_keys:
  "map fst (fixed_context E request course_name course_row activity_info user_is_instructor)
     = fixed_context_keys"
  by (simp add: fixed_context_def fixed_context_keys_def Let_def)

lemma dict_kwargs_Inr:
  "dict_kwargs keywords extra = Inr context \<longleftrightarrow>
     (\<forall>k \<in> set (map fst keywords). extra k = None) \<and> context = map_of keywords ++ extra"
  by (auto simp: dict_kwargs_def)

lemma default_compare_me_fixed:
  "k \<in> set fixed_context_keys \<Longrightarrow> default_compare_me course_attrs k = course_attrs k"
  by (auto simp: default_compare_me_def fixed_context_keys_def)

lemma default_compare_me_keeps:
  "course_attrs k = Some v \<Longrightarrow> default_compare_me course_attrs k = Some v"
  by (auto simp: default_compare_me_def)

lemma render_page_context:
  assumes "render_page E request course_name pagepath course_row s
             = (Inr (TemplateResponse templates name context), s')"
  shows "\<exists>activity_info user_is_instructor.
           dict_kwargs (fixed_context E request course_name course_row activity_info user_is_instructor)
             (map_option CStr \<circ> default_compare_me (fetch_all_course_attributes E (row_id course_row)))
           = Inr context"
  using assms unfolding render_page_def Let_def
  by (auto split: sum.splits prod.splits if_splits)

lemma serve_page_renders:
  assumes "serve_page E request course_name pagepath s = (Inr (TemplateResponse templates name context), s')"
    and "fetch_course E course_name = Some course_row"
  shows "render_page E request course_name pagepath course_row s
             = (Inr (TemplateResponse templates name context), s')"
  using assms unfolding serve_page_def Let_def
  by (auto split: if_splits)

lemma map_of_fixed_user_id:
  "map_of (fixed_context E request course_name course_row activity_info user_is_instructor) ''user_id''
     = Some (CStr (case state_user request of Some u \<Rightarrow> username u | None \<Rightarrow> []))"
  by (simp add: fixed_context_def Let_def)

lemma safe_join_published:
  "safe_join posix ''/srv/books'' [''overview'', ''published'', ''overview'']
     = Some ''/srv/books/overview/published/overview''"
  by (simp add: path_eval)

lemma test_env_simps:
  "os_path test_env = posix"
  "book_path (settings test_env) = ''/srv/books''"
  "fetch_course test_env = test_courses"
  "utcnow test_env = 1636000000"
  by (simp_all add: test_env_def)

lemma overview_row:
  "test_courses ''overview''
     = Some \<lparr> row_id = 1, base_course = ''overview'', login_required = False,
              downloads_enabled = True, allow_pairs = False \<rparr>"
  by (simp add: test_courses_def)

lemma shadowed_row:
  "test_courses ''shadowed''
     = Some \<lparr> row_id = 3, base_course = ''overview'', login_required = False,
              downloads_enabled = False, allow_pairs = False \<rparr>"
  by (simp add: test_courses_def)

lemma serve_page_overview_index:
  "\<exists>templates context s'.
     serve_page test_env anonymous ''overview'' ''index.html'' empty_db
       = (Inr (TemplateResponse templates ''index.html'' context), s')"
  by (simp add: serve_page_def render_page_def test_env_simps overview_row anonymous_def
      safe_join_published Jinja2Templates_def UseinfoValidation_def create_useinfo_entry_def
      page_view_event_def dict_kwargs_def fixed_context_def default_compare_me_def
      pretext_delimiters_def Let_def, simp add: test_env_def)

text \<open>
  C8, as the code has it.  The course attributes are keyword arguments of the same
  \<open>dict(...)\<close> call as the fixed keys.  Whenever \<open>serve_page\<close> hands a context to
  the renderer, no course attribute is named like a fixed key, every fixed key holds its
  fixed value (\<open>user_id\<close> is the user's name, or empty for an anonymous request), and
  every course attribute is in the context under its own key: nothing is overridden.
\<close>

theorem serve_page_context_no_override:
  assumes "serve_page E request course_name pagepath s
             = (Inr (TemplateResponse templates name context), s')"
    and "fetch_course E course_name = Some course_row"
  shows "(\<forall>k \<in> set fixed_context_keys.
            fetch_all_course_attributes E (row_id course_row) k = None)
         \<and> context ''user_id''
             = Some (CStr (case state_user request of Some u \<Rightarrow> username u | None \<Rightarrow> []))
         \<and> (\<exists>activity_info user_is_instructor. \<forall>k \<in> set fixed_context_keys.
               context k = map_of (fixed_context E request course_name course_row
                                     activity_info user_is_instructor) k)
         \<and> (\<forall>k v. fetch_all_course_attributes E (row_id course_row) k = Some v
               \<longrightarrow> context k = Some (CStr v))"
proof -
  let ?raw = "fetch_all_course_attributes E (row_id course_row)"
  let ?attrs = "default_compare_me ?raw"
  from render_page_context [OF serve_page_renders [OF assms]] obtain ai ii
    where d: "dict_kwargs (fixed_context E request course_name course_row ai ii)
                (map_option CStr \<circ> ?attrs) = Inr context"
    by blast
  let ?fixed = "fixed_context E request course_name course_row ai ii"
  from d have free: "\<forall>k \<in> set fixed_context_keys. ?attrs k = None"
    and ctx: "context = map_of ?fixed ++ (map_option CStr \<circ> ?attrs)"
    by (simp_all add: dict_kwargs_Inr fixed_context_keys)
  have a: "\<forall>k \<in> set fixed_context_keys. ?raw k = None"
    using free by (simp add: default_compare_me_fixed)
  have b: "\<forall>k \<in> set fixed_context_keys. context k = map_of ?fixed k"
    using free ctx by (simp add: map_add_def)
  have "''user_id'' \<in> set fixed_context_keys"
    by (simp add: fixed_context_keys_def)
  with b have c: "context ''user_id''
             = Some (CStr (case state_user request of Some u \<Rightarrow> username u | None \<Rightarrow> []))"
    by (simp add: map_of_fixed_user_id)
  have e: "\<forall>k v. ?raw k = Some v \<longrightarrow> context k = Some (CStr v)"
    using ctx by (auto simp: map_add_def dest: default_compare_me_keeps)
  from a b c e show ?thesis by blast
qed

theorem serve_page_context_no_override_witness:
  "\<exists>templates context s'.
     serve_page test_env anonymous ''overview'' ''index.html'' empty_db
       = (Inr (TemplateResponse templates ''index.html'' context), s')
     \<and> context ''user_id'' = Some (CStr [])
     \<and> context ''markup_system'' = Some (CStr ''PreTeXt'')"
proof -
  from serve_page_overview_index obtain templates ctx s'
    where run: "serve_page test_env anonymous ''overview'' ''index.html'' empty_db
                  = (Inr (TemplateResponse templates ''index.html'' ctx), s')"
    by blast
  have row: "fetch_course test_env ''overview''
               = Some \<lparr> row_id = 1, base_course = ''overview'', login_required = False,
                        downloads_enabled = True, allow_pairs = False \<rparr>"
    by (simp add: test_env_simps overview_row)
  have attr: "fetch_all_course_attributes test_env 1 ''markup_system'' = Some ''PreTeXt''"
    by (simp add: test_env_def)
  from serve_page_context_no_override [OF run row] attr
  have "ctx ''user_id'' = Some (CStr []) \<and> ctx ''markup_system'' = Some (CStr ''PreTeXt'')"
    by (simp add: anonymous_def)
  with run show ?thesis by blast
qed

text \<open>
  C8 as the spec words it fails: with a course attribute named \<open>user_id\<close> there is no
  final context in which it could override the fixed value; the \<open>dict(...)\<close> call
  raises \<open>TypeError\<close>.
\<close>

theorem serve_page_attribute_collision_counterexample:
  "fetch_course test_env ''shadowed''
     = Some \<lparr> row_id = 3, base_course = ''overview'', login_required = False,
              downloads_enabled = False, allow_pairs = False \<rparr>
   \<and> fetch_all_course_attributes test_env 3 ''user_id'' = Some ''mallory''
   \<and> ''user_id'' \<in> set fixed_context_keys
   \<and> fst (serve_page test_env anonymous ''shadowed'' ''index.html'' empty_db) = Inl TypeError"
  by (simp add: serve_page_def render_page_def test_env_simps shadowed_row anonymous_def
      safe_join_published Jinja2Templates_def UseinfoValidation_def create_useinfo_entry_def
      page_view_event_def dict_kwargs_def fixed_context_def default_compare_me_def
      pretext_delimiters_def fixed_context_keys_def Let_def, simp add: test_env_def)

text \<open>
  C9, as the code has it.  The page-view event is inserted before the renderer is
  called: a request that passes the course and access checks and reaches the renderer
  with a page that has no template fails with 404, and the event store has exactly one
  more row, the view event.  Reaching the renderer means that the template directory of
  the base course resolves, the view event validates, and no course attribute is named
  like a fixed key.
\<close>

theorem serve_page_missing_template:
  assumes course: "fetch_course E course_name = Some course_row"
    and access: "\<not> (login_required course_row \<and> state_user request = None)"
    and current: "\<forall>u. state_user request = Some u \<longrightarrow> user_course_name u = course_name"
    and dir: "safe_join (os_path E) (book_path (settings E))
                [base_course course_row, ''published'', base_course course_row] = Some d"
    and valid: "useinfo_validates E (page_view_event E request course_name pagepath)"
    and attrs: "\<forall>k \<in> set fixed_context_keys.
                  fetch_all_course_attributes E (row_id course_row) k = None"
    and missing: "\<not> template_found E d pagepath"
  shows "serve_page E request course_name pagepath s
           = (Inl (HTTPException 404
                    (Some (''Page '' @ pagepath @ '' not found in base course ''
                           @ base_course course_row @ ''.''))),
              s\<lparr>useinfo_table :=
                   useinfo_table s @ [page_view_event E request course_name pagepath]\<rparr>)"
proof -
  have redirect: "\<not> (case state_user request of
                        Some u \<Rightarrow> user_course_name u \<noteq> course_name | None \<Rightarrow> False)"
    using current by (auto split: option.splits)
  have sp: "serve_page E request course_name pagepath s
              = render_page E request course_name pagepath course_row s"
    using course access redirect by (auto simp: serve_page_def Let_def)
  have nocoll: "\<And>ai ii.
     dict_kwargs (fixed_context E request course_name course_row ai ii)
       (map_option CStr \<circ> default_compare_me (fetch_all_course_attributes E (row_id course_row)))
      = Inr (map_of (fixed_context E request course_name course_row ai ii) ++
       (map_option CStr \<circ> default_compare_me (fetch_all_course_attributes E (row_id course_row))))"
    using attrs by (simp add: dict_kwargs_def fixed_context_keys default_compare_me_fixed)
  show ?thesis
    unfolding sp render_page_def
    using dir valid missing
    by (simp add: Jinja2Templates_def UseinfoValidation_def create_useinfo_entry_def
        pretext_delimiters_def Let_def nocoll)
qed

theorem serve_page_missing_template_witness:
  "serve_page test_env anonymous ''overview'' ''ch1/nosuch.html'' empty_db
     = (Inl (HTTPException 404
              (Some ''Page ch1/nosuch.html not found in base course overview.'')),
        \<lparr> useinfo_table =
             [\<lparr> useinfo_event = ''page'', useinfo_act = ''view'',
                useinfo_div_id = ''ch1/nosuch.html'', useinfo_course_id = ''overview'',
                useinfo_sid = Some ''Anonymous'', useinfo_timestamp = Some 1636000000 \<rparr>],
           answer_tables = [] \<rparr>)"
proof -
  let ?row = "\<lparr> row_id = 1, base_course = ''overview'', login_required = False,
                 downloads_enabled = True, allow_pairs = False \<rparr>"
  have h1: "fetch_course test_env ''overview'' = Some ?row"
    by (simp add: test_env_simps overview_row)
  have h2: "\<not> (login_required ?row \<and> state_user anonymous = None)"
    by simp
  have h3: "\<forall>u. state_user anonymous = Some u \<longrightarrow> user_course_name u = ''overview''"
    by (simp add: anonymous_def)
  have h4: "safe_join (os_path test_env) (book_path (settings test_env))
              [base_course ?row, ''published'', base_course ?row]
            = Some ''/srv/books/overview/published/overview''"
    by (simp add: test_env_simps safe_join_published)
  have h5: "useinfo_validates test_env
              (page_view_event test_env anonymous ''overview'' ''ch1/nosuch.html'')"
    by (simp add: test_env_def page_view_event_def)
  have h6: "\<forall>k \<in> set fixed_context_keys.
              fetch_all_course_attributes test_env (row_id ?row) k = None"
    by (simp add: test_env_def fixed_context_keys_def)
  have h7: "\<not> template_found test_env ''/srv/books/overview/published/overview''
                ''ch1/nosuch.html''"
    by (simp add: test_env_def)
  from serve_page_missing_template [OF h1 h2 h3 h4 h5 h6 h7, of empty_db]
  show ?thesis
    by (simp add: page_view_event_def anonymous_def empty_db_def test_env_simps)
qed

text \<open>
  C9 as the claim words it fails: passing the course and access checks and naming a page
  without a template is not enough for the 404.  For the course \<open>shadowed\<close>, whose
  attribute \<open>user_id\<close> repeats a fixed key, the view event is inserted and the request
  then ends in \<open>TypeError\<close>, before the renderer is asked for the template.
\<close>

theorem serve_page_missing_template_counterexample:
  "fetch_course test_env ''shadowed''
     = Some \<lparr> row_id = 3, base_course = ''overview'', login_required = False,
              downloads_enabled = False, allow_pairs = False \<rparr>
   \<and> state_user anonymous = None
   \<and> \<not> template_found test_env ''/srv/books/overview/published/overview'' ''nosuch.html''
   \<and> serve_page test_env anonymous ''shadowed'' ''nosuch.html'' empty_db
       = (Inl TypeError,
          \<lparr> useinfo_table =
               [\<lparr> useinfo_event = ''page'', useinfo_act = ''view'',
                  useinfo_div_id = ''nosuch.html'', useinfo_course_id = ''shadowed'',
                  useinfo_sid = Some ''Anonymous'', useinfo_timestamp = Some 1636000000 \<rparr>],
             answer_tables = [] \<rparr>)"
  by (simp add: serve_page_def render_page_def test_env_simps shadowed_row anonymous_def
      safe_join_published Jinja2Templates_def UseinfoValidation_def create_useinfo_entry_def
      page_view_event_def dict_kwargs_def fixed_context_def default_compare_me_def
      pretext_delimiters_def empty_db_def Let_def, simp add: test_env_def)

section \<open>Properties of \<open>log_book_event\<close>\<close>

lemma stamp_entry_ignores_client:
  "stamp_entry E request (entry\<lparr>sid := client_sid, timestamp := client_timestamp\<rparr>)
     = stamp_entry E request entry"
  by (simp add: stamp_entry_def)

lemma log_answer_useinfo_table:
  "useinfo_table (snd (log_answer E entry s)) = useinfo_table s"
  by (simp add: log_answer_def create_answer_table_entry_def split: option.splits)

text \<open>
  C5.  The outcome of \<open>log_book_event\<close> (result and event store) is the same whatever
  \<open>sid\<close> and \<open>timestamp\<close> the client payload carries, and the row it adds to the
  \<open>useinfo\<close> table, if it validates, has the caller's username (or \<open>Anonymous\<close>) as
  its \<open>sid\<close> and the server's time as its \<open>timestamp\<close>.
\<close>

theorem log_book_event_sid_timestamp:
  "log_book_event E (entry\<lparr>sid := client_sid, timestamp := client_timestamp\<rparr>) request s
     = log_book_event E entry request s
   \<and> useinfo_table (snd (log_book_event E entry request s))
       = useinfo_table s
         @ (let row = \<lparr> useinfo_event = event entry, useinfo_act = act entry,
                         useinfo_div_id = div_id entry,
                         useinfo_course_id = payload_course_name entry,
                         useinfo_sid = Some (case state_user request of
                                               Some u \<Rightarrow> username u | None \<Rightarrow> ''Anonymous''),
                         useinfo_timestamp = Some (utcnow E) \<rparr>
            in if useinfo_validates E row then [row] else [])"
proof -
  have a: "log_book_event E (entry\<lparr>sid := client_sid, timestamp := client_timestamp\<rparr>) request s
             = log_book_event E entry request s"
    by (simp add: log_book_event_def stamp_entry_ignores_client)
  have row: "useinfo_dict (stamp_entry E request entry)
               = \<lparr> useinfo_event = event entry, useinfo_act = act entry,
                   useinfo_div_id = div_id entry,
                   useinfo_course_id = payload_course_name entry,
                   useinfo_sid = Some (case state_user request of
                                         Some u \<Rightarrow> username u | None \<Rightarrow> ''Anonymous''),
                   useinfo_timestamp = Some (utcnow E) \<rparr>"
    by (simp add: useinfo_dict_def stamp_entry_def)
  have b: "useinfo_table (snd (log_book_event E entry request s))
             = useinfo_table s
               @ (if useinfo_validates E (useinfo_dict (stamp_entry E request entry))
                  then [useinfo_dict (stamp_entry E request entry)] else [])"
  proof (cases "useinfo_validates E (useinfo_dict (stamp_entry E request entry))")
    case False
    then show ?thesis
      by (simp add: log_book_event_def UseinfoValidation_def)
  next
    case True
    let ?s1 = "s\<lparr>useinfo_table := useinfo_table s @ [useinfo_dict (stamp_entry E request entry)]\<rparr>"
    have "useinfo_table (snd (log_book_event E entry request s))
            = useinfo_table (snd (log_answer E (stamp_entry E request entry) ?s1))"
      using True
      by (simp add: log_book_event_def UseinfoValidation_def create_useinfo_entry_def Let_def
          split: prod.splits sum.splits)
    then show ?thesis
      using True by (simp add: log_answer_useinfo_table)
  qed
  from a b row show ?thesis by (simp add: Let_def)
qed

theorem log_book_event_sid_timestamp_witness:
  "log_book_event test_env click_entry student empty_db
     = log_book_event test_env (click_entry\<lparr>sid := None, timestamp := None\<rparr>) student empty_db
   \<and> useinfo_table (snd (log_book_event test_env click_entry student empty_db))
       = [\<lparr> useinfo_event = ''page'', useinfo_act = ''view'', useinfo_div_id = ''index.html'',
            useinfo_course_id = ''overview'', useinfo_sid = Some ''alice'',
            useinfo_timestamp = Some 1636000000 \<rparr>]
   \<and> useinfo_table (snd (log_book_event test_env click_entry anonymous empty_db))
       = [\<lparr> useinfo_event = ''page'', useinfo_act = ''view'', useinfo_div_id = ''index.html'',
            useinfo_course_id = ''overview'', useinfo_sid = Some ''Anonymous'',
            useinfo_timestamp = Some 1636000000 \<rparr>]"
proof -
  have c: "click_entry = (click_entry\<lparr>sid := None, timestamp := None\<rparr>)\<lparr>sid := Some ''mallory'', timestamp := Some 7\<rparr>"
    by (simp add: click_entry_def)
  have v: "useinfo_validates test_env = (\<lambda>row. length (useinfo_div_id row) \<le> 512)"
     "utcnow test_env = 1636000000"
    by (simp_all add: test_env_def)
  have a: "log_book_event test_env click_entry student empty_db
     = log_book_event test_env (click_entry\<lparr>sid := None, timestamp := None\<rparr>) student empty_db"
    using log_book_event_sid_timestamp [where E = test_env
        and entry = "click_entry\<lparr>sid := None, timestamp := None\<rparr>"
        and client_sid = "Some ''mallory''" and client_timestamp = "Some 7"
        and request = student and s = empty_db]
    unfolding c [symmetric] by blast
  have b: "useinfo_table (snd (log_book_event test_env click_entry request empty_db))
       = [\<lparr> useinfo_event = ''page'', useinfo_act = ''view'', useinfo_div_id = ''index.html'',
            useinfo_course_id = ''overview'',
            useinfo_sid = Some (case state_user request of
                                  Some u \<Rightarrow> username u | None \<Rightarrow> ''Anonymous''),
            useinfo_timestamp = Some 1636000000 \<rparr>]" for request
    using log_book_event_sid_timestamp [where E = test_env and entry = click_entry
        and request = request and s = empty_db, THEN conjunct2]
    by (simp add: v Let_def click_entry_def empty_db_def)
  from a b [of student] b [of anonymous] show ?thesis
    by (simp add: student_def anonymous_def)
qed

text \<open>
  C6.  For a payload that validates (the \<open>useinfo\<close> row and, for a kind in
  \<open>EVENT2TABLE\<close>, its answer record), \<open>log_book_event\<close> returns normally and
  persists exactly one record when the kind is not in \<open>EVENT2TABLE\<close> (the primary
  event, no answer record) and exactly two when it is (the primary event and one answer
  record of that kind).
\<close>

theorem log_book_event_record_count:
  assumes valid: "useinfo_validates E (useinfo_dict (stamp_entry E request entry))"
    and answer: "\<forall>table_name. EVENT2TABLE E (event entry) = Some table_name \<longrightarrow>
                   (\<exists>from_orm valid_table.
                      validation_tables E table_name = Some from_orm
                      \<and> from_orm (stamp_entry E request entry) = Some valid_table)"
  shows "\<exists>result s'.
           log_book_event E entry request s = (Inr result, s')
           \<and> useinfo_table s' = useinfo_table s @ [useinfo_dict (stamp_entry E request entry)]
           \<and> (if EVENT2TABLE E (event entry) = None
               then answer_tables s' = answer_tables s
               else \<exists>valid_table.
                      answer_tables s' = answer_tables s @ [(event entry, valid_table)])
           \<and> length (useinfo_table s') + length (answer_tables s')
               = length (useinfo_table s) + length (answer_tables s)
                 + (if EVENT2TABLE E (event entry) = None then 1 else 2)"
proof (cases "EVENT2TABLE E (event entry)")
  case None
  then have "log_answer E (stamp_entry E request entry) s1 = (Inr (), s1)" for s1
    by (simp add: log_answer_def stamp_entry_def)
  with valid None show ?thesis
    by (simp add: log_book_event_def UseinfoValidation_def create_useinfo_entry_def Let_def)
next
  case (Some table_name)
  with answer obtain from_orm valid_table
    where v: "validation_tables E table_name = Some from_orm"
      "from_orm (stamp_entry E request entry) = Some valid_table"
    by blast
  have ev: "event (stamp_entry E request entry) = event entry"
    by (simp add: stamp_entry_def)
  have "log_answer E (stamp_entry E request entry) s1
          = (Inr (), s1\<lparr>answer_tables := answer_tables s1 @ [(event entry, valid_table)]\<rparr>)" for s1
    using Some v by (simp add: log_answer_def ev create_answer_table_entry_def)
  with valid Some show ?thesis
    by (simp add: log_book_event_def UseinfoValidation_def create_useinfo_entry_def Let_def)
qed

theorem log_book_event_record_count_witness:
  "(\<exists>result. log_book_event test_env click_entry student empty_db
      = (Inr result,
         \<lparr> useinfo_table = [useinfo_dict (stamp_entry test_env student click_entry)],
           answer_tables = [] \<rparr>))
   \<and> (\<exists>result. log_book_event test_env mchoice_entry student empty_db
      = (Inr result,
         \<lparr> useinfo_table = [useinfo_dict (stamp_entry test_env student mchoice_entry)],
           answer_tables = [(''mChoice'', [(''sid'', JStr ''alice''), (''answer'', JStr ''1''),
                                           (''correct'', JBool True)])] \<rparr>))"
proof -
  have e: "EVENT2TABLE test_env = [''mChoice'' \<mapsto> ''mchoice_answers'']"
    by (simp add: test_env_def)
  have t: "validation_tables test_env ''mchoice_answers'' = Some
            (\<lambda>entry. if map_of (kind_fields entry) ''answer'' = None then None
                     else Some ((''sid'', case sid entry of Some x \<Rightarrow> JStr x | None \<Rightarrow> JNull)
                                # kind_fields entry))"
    by (simp add: test_env_def)
  have v: "useinfo_validates test_env = (\<lambda>row. length (useinfo_div_id row) \<le> 512)"
    by (simp add: test_env_def)
  have h1: "useinfo_validates test_env (useinfo_dict (stamp_entry test_env student click_entry))"
    by (simp add: v useinfo_dict_def stamp_entry_def click_entry_def)
  have h2: "\<forall>table_name. EVENT2TABLE test_env (event click_entry) = Some table_name \<longrightarrow>
                   (\<exists>from_orm valid_table.
                      validation_tables test_env table_name = Some from_orm
                      \<and> from_orm (stamp_entry test_env student click_entry) = Some valid_table)"
    by (simp add: e click_entry_def)
  have h3: "useinfo_validates test_env (useinfo_dict (stamp_entry test_env student mchoice_entry))"
    by (simp add: v useinfo_dict_def stamp_entry_def mchoice_entry_def)
  have h4: "\<forall>table_name. EVENT2TABLE test_env (event mchoice_entry) = Some table_name \<longrightarrow>
                   (\<exists>from_orm valid_table.
                      validation_tables test_env table_name = Some from_orm
                      \<and> from_orm (stamp_entry test_env student mchoice_entry) = Some valid_table)"
    by (simp add: e t mchoice_entry_def stamp_entry_def)
  from log_book_event_record_count [OF h1 h2, of empty_db]
  have a: "\<exists>result. log_book_event test_env click_entry student empty_db
      = (Inr result,
         \<lparr> useinfo_table = [useinfo_dict (stamp_entry test_env student click_entry)],
           answer_tables = [] \<rparr>)"
    by (auto simp: e click_entry_def empty_db_def)
  from log_book_event_record_count [OF h3 h4, of empty_db]
  obtain result s' where r: "log_book_event test_env mchoice_entry student empty_db = (Inr result, s')"
    "useinfo_table s' = [useinfo_dict (stamp_entry test_env student mchoice_entry)]"
    by (auto simp: empty_db_def)
  have "answer_tables s' = [(''mChoice'', [(''sid'', JStr ''alice''), (''answer'', JStr ''1''),
                                           (''correct'', JBool True)])]"
    using r(1) h3
    by (simp add: log_book_event_def UseinfoValidation_def create_useinfo_entry_def
        log_answer_def create_answer_table_entry_def e t Let_def stamp_entry_def
        mchoice_entry_def student_def empty_db_def split: if_splits, auto)
  with r have "s' = \<lparr> useinfo_table = [useinfo_dict (stamp_entry test_env student mchoice_entry)],
           answer_tables = [(''mChoice'', [(''sid'', JStr ''alice''), (''answer'', JStr ''1''),
                                           (''correct'', JBool True)])] \<rparr>"
    by simp
  with r(1) a show ?thesis by blast
qed

section \<open>Properties of \<open>set_tz_offset\<close>\<close>

text \<open>
  C10.  When the \<open>RS_info\<close> cookie decodes to a JSON mapping, the rewritten cookie is
  the serialization of that mapping with \<open>tz_offset\<close> set to the request's offset and
  every other key and value as before, in the same order; without a cookie it is the
  serialization of the mapping that has only \<open>tz_offset\<close>.
\<close>

theorem set_tz_offset_merges:
  "(json_loads E cookie = Inr (JDict d) \<and> cookie \<noteq> [] \<longrightarrow>
      (\<exists>values.
         set_tz_offset E response tzreq (Some cookie)
           = Inr (''done'', response @ [(''RS_info'', json_dumps E (JDict values))])
         \<and> map_of values = (map_of d)(''tz_offset'' \<mapsto> JInt (timezoneoffset tzreq))
         \<and> (\<forall>k. k \<noteq> ''tz_offset'' \<longrightarrow> map_of values k = map_of d k)
         \<and> map fst values = (if ''tz_offset'' \<in> set (map fst d) then map fst d
                              else map fst d @ [''tz_offset''])))
   \<and> set_tz_offset E response tzreq None
       = Inr (''done'', response @ [(''RS_info'',
                json_dumps E (JDict [(''tz_offset'', JInt (timezoneoffset tzreq))]))])"
proof -
  let ?v = "JInt (timezoneoffset tzreq)"
  have m: "map_of (dict_setitem ''tz_offset'' ?v d) = (map_of d)(''tz_offset'' \<mapsto> ?v)"
    by (simp add: dict_setitem_def update_conv')
  have k: "map fst (dict_setitem ''tz_offset'' ?v d)
             = (if ''tz_offset'' \<in> set (map fst d) then map fst d
                else map fst d @ [''tz_offset''])"
    unfolding dict_setitem_def by (rule update_keys)
  have a: "json_loads E cookie = Inr (JDict d) \<Longrightarrow> cookie \<noteq> [] \<Longrightarrow>
      set_tz_offset E response tzreq (Some cookie)
           = Inr (''done'', response @ [(''RS_info'',
               json_dumps E (JDict (dict_setitem ''tz_offset'' ?v d)))])"
    by (simp add: set_tz_offset_def)
  have b: "set_tz_offset E response tzreq None
       = Inr (''done'', response @ [(''RS_info'',
                json_dumps E (JDict [(''tz_offset'', JInt (timezoneoffset tzreq))]))])"
    by (simp add: set_tz_offset_def dict_setitem_def)
  have c: "json_loads E cookie = Inr (JDict d) \<and> cookie \<noteq> [] \<longrightarrow>
      (\<exists>values.
         set_tz_offset E response tzreq (Some cookie)
           = Inr (''done'', response @ [(''RS_info'', json_dumps E (JDict values))])
         \<and> map_of values = (map_of d)(''tz_offset'' \<mapsto> JInt (timezoneoffset tzreq))
         \<and> (\<forall>k. k \<noteq> ''tz_offset'' \<longrightarrow> map_of values k = map_of d k)
         \<and> map fst values = (if ''tz_offset'' \<in> set (map fst d) then map fst d
                              else map fst d @ [''tz_offset'']))"
  proof
    assume h: "json_loads E cookie = Inr (JDict d) \<and> cookie \<noteq> []"
    show "\<exists>values.
         set_tz_offset E response tzreq (Some cookie)
           = Inr (''done'', response @ [(''RS_info'', json_dumps E (JDict values))])
         \<and> map_of values = (map_of d)(''tz_offset'' \<mapsto> JInt (timezoneoffset tzreq))
         \<and> (\<forall>k. k \<noteq> ''tz_offset'' \<longrightarrow> map_of values k = map_of d k)
         \<and> map fst values = (if ''tz_offset'' \<in> set (map fst d) then map fst d
                              else map fst d @ [''tz_offset''])"
      using a h m k
      by (intro exI [of _ "dict_setitem ''tz_offset'' ?v d"]) simp
  qed
  from c b show ?thesis by blast
qed

theorem set_tz_offset_merges_witness:
  "set_tz_offset test_env [] \<lparr>timezoneoffset = 5\<rparr> (Some cookie_theme)
     = Inr (''done'', [(''RS_info'', cookie_theme_tz)])
   \<and> set_tz_offset test_env [] \<lparr>timezoneoffset = 5\<rparr> None
     = Inr (''done'', [(''RS_info'', cookie_tz)])"
proof -
  have h1: "json_loads test_env cookie_theme = Inr (JDict [(''theme'', JStr ''dark'')])"
    by (simp add: test_env_def)
  have h2: "cookie_theme \<noteq> []"
    by (simp add: cookie_theme_def)
  from set_tz_offset_merges [of test_env cookie_theme "[(''theme'', JStr ''dark'')]" "[]" "\<lparr>timezoneoffset = 5\<rparr>"] h1 h2
  obtain vals where v: "set_tz_offset test_env [] \<lparr>timezoneoffset = 5\<rparr> (Some cookie_theme)
           = Inr (''done'', [(''RS_info'', json_dumps test_env (JDict vals))])"
     "set_tz_offset test_env [] \<lparr>timezoneoffset = 5\<rparr> None
       = Inr (''done'', [(''RS_info'', json_dumps test_env (JDict [(''tz_offset'', JInt 5)]))])"
    by auto
  then show ?thesis
    by (simp add: set_tz_offset_def h1 h2 dict_setitem_def, simp add: test_env_def)
qed

end
